theory Spec2Isabelle
  imports Main
begin

section \<open>The sign-in page: which form to render\<close>

text \<open>
  A shallow embedding of \<^verbatim>\<open>getRenderOptions\<close> from
  \<^verbatim>\<open>src/pages/signin/SignInPage.js\<close> (lines 88 to 128). The function takes the
  sign-in state (five derived booleans and the account object) and returns eight
  booleans that select the sub-form to show.
\<close>

subsection \<open>Data model\<close>

text \<open>
  The account object, after \<^verbatim>\<open>propTypes.account\<close> (lines 29 to 56). Every key of
  the shape is optional: \<open>None\<close> is an absent key (the JavaScript value
  \<^verbatim>\<open>undefined\<close>). \<^verbatim>\<open>PropTypes.shape\<close> admits keys outside the shape;
  \<open>otherKeys\<close> lists them, since \<^verbatim>\<open>_.isEmpty\<close> counts every own key.
\<close>

record account =
  errors :: "(string \<rightharpoonup> string) option"
  validated :: "bool option"
  primaryLogin :: "string option"
  requiresTwoFactorAuth :: "bool option"
  hasEmailDeliveryFailure :: "bool option"
  isLoading :: "bool option"
  loadingForm :: "string option"
  isSAMLEnabled :: "bool option"
  isSAMLRequired :: "bool option"
  otherKeys :: "string list"

text \<open>
  The argument object of \<^verbatim>\<open>getRenderOptions\<close> (line 88). The five flags are
  booleans, as the comment of lines 79 to 87 declares them.
\<close>

record input =
  hasLogin :: bool
  hasValidateCode :: bool
  account :: account
  isPrimaryLogin :: bool
  isUsingMagicCode :: bool
  isClientTheLeader :: bool

text \<open>The object returned at lines 118 to 127.\<close>

record renderOptions =
  shouldShowLoginForm :: bool
  shouldShowEmailDeliveryFailurePage :: bool
  shouldShowUnlinkLoginForm :: bool
  shouldShowValidateCodeForm :: bool
  shouldShowChooseSSOOrMagicCode :: bool
  shouldInitiateSAMLLogin :: bool
  shouldShowWelcomeHeader :: bool
  shouldShowWelcomeText :: bool

text \<open>
  The three values of the module \<^verbatim>\<open>CONST\<close> that the function compares with
  (\<^verbatim>\<open>CONST.PLATFORM.WEB\<close>, \<^verbatim>\<open>CONST.PLATFORM.DESKTOP\<close>,
  \<^verbatim>\<open>CONST.FORMS.LOGIN_FORM\<close>). The module is imported at line 21 and is not part of
  the file, so the values are parameters.
\<close>

record constants =
  PLATFORM_WEB :: string
  PLATFORM_DESKTOP :: string
  FORMS_LOGIN_FORM :: string

text \<open>
  What the two calls into the environment return: \<^verbatim>\<open>Permissions.canUseSAML()\<close>
  (line 98) and \<^verbatim>\<open>getPlatform()\<close> (line 97).
\<close>

record env =
  canUseSAML :: bool
  getPlatform :: string

subsection \<open>Helpers of the host language\<close>

text \<open>\<^verbatim>\<open>Boolean(x)\<close> on a value that is a boolean or \<^verbatim>\<open>undefined\<close>.\<close>

fun Boolean :: "bool option \<Rightarrow> bool" where
  "Boolean None = False"
| "Boolean (Some b) = b"

text \<open>\<^verbatim>\<open>_.isEmpty(account)\<close>: the object has no own key.\<close>

definition isEmpty :: "account \<Rightarrow> bool" where
  "isEmpty a \<longleftrightarrow>
     errors a = None \<and> validated a = None \<and> primaryLogin a = None \<and>
     requiresTwoFactorAuth a = None \<and> hasEmailDeliveryFailure a = None \<and>
     isLoading a = None \<and> loadingForm a = None \<and> isSAMLEnabled a = None \<and>
     isSAMLRequired a = None \<and> otherKeys a = []"

text \<open>
  The test of line 98: SAML is open to users on the beta, and to everyone on web and
  desktop.
\<close>

definition samlPermitted :: "constants \<Rightarrow> env \<Rightarrow> bool" where
  "samlPermitted C e \<longleftrightarrow>
     canUseSAML e \<or> getPlatform e = PLATFORM_WEB C \<or> getPlatform e = PLATFORM_DESKTOP C"

subsection \<open>getRenderOptions\<close>

text \<open>
  Lines 88 to 128, statement by statement. The two \<^verbatim>\<open>let\<close> variables assigned
  inside the \<^verbatim>\<open>if\<close> of line 98 become a pair; the reassignment of
  \<^verbatim>\<open>shouldShowLoginForm\<close> at line 109 becomes a second binding.
\<close>

definition getRenderOptions :: "constants \<Rightarrow> env \<Rightarrow> input \<Rightarrow> renderOptions" where
  "getRenderOptions C e i =
    (let a = account i;
         hasAccount = \<not> isEmpty a;
         isSAMLEnabled = Boolean (isSAMLEnabled a);
         isSAMLRequired = Boolean (isSAMLRequired a);
         hasEmailDeliveryFailure = Boolean (hasEmailDeliveryFailure a);
         platform = getPlatform e;
         (shouldInitiateSAMLLogin, shouldShowChooseSSOOrMagicCode) =
           (if canUseSAML e \<or> platform = PLATFORM_WEB C \<or> platform = PLATFORM_DESKTOP C
            then (hasAccount \<and> hasLogin i \<and> isSAMLRequired \<and>
                    loadingForm a = Some (FORMS_LOGIN_FORM C),
                  hasAccount \<and> hasLogin i \<and> isSAMLEnabled \<and> \<not> isSAMLRequired \<and>
                    \<not> isUsingMagicCode i)
            else (False, False));
         shouldShowLoginForm0 = (isClientTheLeader i \<and> \<not> hasLogin i \<and> \<not> hasValidateCode i);
         shouldShowLoginForm =
           (if isSAMLRequired \<and> \<not> shouldInitiateSAMLLogin then isClientTheLeader i
            else shouldShowLoginForm0);
         shouldShowEmailDeliveryFailurePage =
           (hasLogin i \<and> hasEmailDeliveryFailure \<and> \<not> shouldShowChooseSSOOrMagicCode \<and>
            \<not> shouldInitiateSAMLLogin);
         isUnvalidatedSecondaryLogin =
           (hasLogin i \<and> \<not> isPrimaryLogin i \<and> \<not> Boolean (validated a) \<and>
            \<not> hasEmailDeliveryFailure);
         shouldShowValidateCodeForm =
           (hasAccount \<and> (hasLogin i \<or> hasValidateCode i) \<and> \<not> isUnvalidatedSecondaryLogin \<and>
            \<not> hasEmailDeliveryFailure \<and> \<not> shouldShowChooseSSOOrMagicCode \<and> \<not> isSAMLRequired);
         shouldShowWelcomeHeader =
           (shouldShowLoginForm \<or> shouldShowValidateCodeForm \<or>
            shouldShowChooseSSOOrMagicCode \<or> isUnvalidatedSecondaryLogin);
         shouldShowWelcomeText =
           (shouldShowLoginForm \<or> shouldShowValidateCodeForm \<or>
            shouldShowChooseSSOOrMagicCode \<or> \<not> isClientTheLeader i)
     in \<lparr>shouldShowLoginForm = shouldShowLoginForm,
         shouldShowEmailDeliveryFailurePage = shouldShowEmailDeliveryFailurePage,
         shouldShowUnlinkLoginForm = isUnvalidatedSecondaryLogin,
         shouldShowValidateCodeForm = shouldShowValidateCodeForm,
         shouldShowChooseSSOOrMagicCode = shouldShowChooseSSOOrMagicCode,
         shouldInitiateSAMLLogin = shouldInitiateSAMLLogin,
         shouldShowWelcomeHeader = shouldShowWelcomeHeader,
         shouldShowWelcomeText = shouldShowWelcomeText\<rparr>)"

subsection \<open>The forms on the page\<close>

text \<open>
  The child components of the layout (lines 225 to 239), in the order of the markup:
  each is shown when its flag holds.
\<close>

datatype form =
  LoginForm | ValidateCodeForm | UnlinkLoginForm | ChooseSSOOrMagicCode | EmailDeliveryFailurePage

definition renderedForms :: "renderOptions \<Rightarrow> form list" where
  "renderedForms r =
     (if shouldShowLoginForm r then [LoginForm] else []) @
     (if shouldShowValidateCodeForm r then [ValidateCodeForm] else []) @
     (if shouldShowUnlinkLoginForm r then [UnlinkLoginForm] else []) @
     (if shouldShowChooseSSOOrMagicCode r then [ChooseSSOOrMagicCode] else []) @
     (if shouldShowEmailDeliveryFailurePage r then [EmailDeliveryFailurePage] else [])"

subsection \<open>Concrete states\<close>

text \<open>\<^verbatim>\<open>defaultProps.account\<close> (line 73): the object with no key.\<close>

definition noAccount :: account where
  "noAccount =
     \<lparr>errors = None, validated = None, primaryLogin = None, requiresTwoFactorAuth = None,
      hasEmailDeliveryFailure = None, isLoading = None, loadingForm = None,
      isSAMLEnabled = None, isSAMLRequired = None, otherKeys = []\<rparr>"

text \<open>
  Modelled from the spec: the values of the module \<^verbatim>\<open>CONST\<close>, which the file
  imports and does not define. Section 6 of the specification names the platforms
  web and desktop; the name of the login form is the one of the component.
\<close>

definition appConstants :: constants where
  "appConstants =
     \<lparr>PLATFORM_WEB = ''web'', PLATFORM_DESKTOP = ''desktop'', FORMS_LOGIN_FORM = ''LoginForm''\<rparr>"

text \<open>A browser and a phone, neither on the SAML beta.\<close>

definition webEnv :: env where
  "webEnv = \<lparr>canUseSAML = False, getPlatform = ''web''\<rparr>"

definition iosEnv :: env where
  "iosEnv = \<lparr>canUseSAML = False, getPlatform = ''ios''\<rparr>"

text \<open>Nothing typed yet, on the leading client: the first visit of the page.\<close>

definition firstVisit :: input where
  "firstVisit =
     \<lparr>hasLogin = False, hasValidateCode = False, account = noAccount, isPrimaryLogin = True,
      isUsingMagicCode = False, isClientTheLeader = True\<rparr>"

text \<open>A validated account whose primary login was typed: the magic code is awaited.\<close>

definition awaitingCode :: input where
  "awaitingCode =
     \<lparr>hasLogin = True, hasValidateCode = False, account = noAccount\<lparr>validated := Some True\<rparr>,
      isPrimaryLogin = True, isUsingMagicCode = False, isClientTheLeader = True\<rparr>"

text \<open>
  A secondary login of an unvalidated account that requires SAML, after the user has
  come back from the portal of the identity provider (no form is loading).
\<close>

definition backFromPortal :: input where
  "backFromPortal =
     \<lparr>hasLogin = True, hasValidateCode = False,
      account = noAccount\<lparr>primaryLogin := Some ''primary@example.com'',
                          isSAMLRequired := Some True\<rparr>,
      isPrimaryLogin = False, isUsingMagicCode = False, isClientTheLeader = True\<rparr>"

text \<open>
  An account that requires SAML and cannot receive email, while the login form is being
  submitted.
\<close>

definition samlWithDeliveryFailure :: input where
  "samlWithDeliveryFailure =
     \<lparr>hasLogin = True, hasValidateCode = False,
      account = noAccount\<lparr>hasEmailDeliveryFailure := Some True, loadingForm := Some ''LoginForm'',
                          isSAMLRequired := Some True\<rparr>,
      isPrimaryLogin = True, isUsingMagicCode = False, isClientTheLeader = True\<rparr>"

text \<open>An account that cannot receive email and has nothing to do with SAML.\<close>

definition deliveryFailure :: input where
  "deliveryFailure =
     \<lparr>hasLogin = True, hasValidateCode = False,
      account = noAccount\<lparr>validated := Some True, hasEmailDeliveryFailure := Some True\<rparr>,
      isPrimaryLogin = True, isUsingMagicCode = False, isClientTheLeader = True\<rparr>"

text \<open>An account with SAML enabled and not required; the user has not chosen yet.\<close>

definition samlOptional :: input where
  "samlOptional =
     \<lparr>hasLogin = True, hasValidateCode = False,
      account = noAccount\<lparr>validated := Some True, isSAMLEnabled := Some True,
                          isSAMLRequired := Some False\<rparr>,
      isPrimaryLogin = True, isUsingMagicCode = False, isClientTheLeader = True\<rparr>"

text \<open>A secondary login of an account that is not validated.\<close>

definition secondaryLogin :: input where
  "secondaryLogin =
     \<lparr>hasLogin = True, hasValidateCode = False,
      account = noAccount\<lparr>validated := Some False, primaryLogin := Some ''primary@example.com''\<rparr>,
      isPrimaryLogin = False, isUsingMagicCode = False, isClientTheLeader = True\<rparr>"

text \<open>A secondary login of an unvalidated account with SAML enabled and not required.\<close>

definition secondaryLoginSamlOptional :: input where
  "secondaryLoginSamlOptional =
     \<lparr>hasLogin = True, hasValidateCode = False,
      account = noAccount\<lparr>primaryLogin := Some ''primary@example.com'',
                          isSAMLEnabled := Some True\<rparr>,
      isPrimaryLogin = False, isUsingMagicCode = False, isClientTheLeader = True\<rparr>"

text \<open>A login typed while the account has not arrived from the server.\<close>

definition loginWithoutAccount :: input where
  "loginWithoutAccount =
     \<lparr>hasLogin = True, hasValidateCode = True, account = noAccount, isPrimaryLogin = True,
      isUsingMagicCode = False, isClientTheLeader = True\<rparr>"

section \<open>Properties of getRenderOptions\<close>

subsection \<open>The flags one by one\<close>

text \<open>
  Each flag of the result as a formula over the input: the definition with its
  bindings unfolded. The later proofs rest on these equations.
\<close>

lemma shouldInitiateSAMLLogin_eq:
  "shouldInitiateSAMLLogin (getRenderOptions C e i) \<longleftrightarrow>
     samlPermitted C e \<and> \<not> isEmpty (account i) \<and> hasLogin i \<and>
     Boolean (isSAMLRequired (account i)) \<and>
     loadingForm (account i) = Some (FORMS_LOGIN_FORM C)"
  by (simp add: getRenderOptions_def samlPermitted_def Let_def)

lemma shouldShowChooseSSOOrMagicCode_eq:
  "shouldShowChooseSSOOrMagicCode (getRenderOptions C e i) \<longleftrightarrow>
     samlPermitted C e \<and> \<not> isEmpty (account i) \<and> hasLogin i \<and>
     Boolean (isSAMLEnabled (account i)) \<and> \<not> Boolean (isSAMLRequired (account i)) \<and>
     \<not> isUsingMagicCode i"
  by (simp add: getRenderOptions_def samlPermitted_def Let_def)

lemma shouldShowLoginForm_eq:
  "shouldShowLoginForm (getRenderOptions C e i) \<longleftrightarrow>
     (if Boolean (isSAMLRequired (account i)) \<and> \<not> shouldInitiateSAMLLogin (getRenderOptions C e i)
      then isClientTheLeader i
      else isClientTheLeader i \<and> \<not> hasLogin i \<and> \<not> hasValidateCode i)"
  by (auto simp: getRenderOptions_def Let_def)

lemma shouldShowEmailDeliveryFailurePage_eq:
  "shouldShowEmailDeliveryFailurePage (getRenderOptions C e i) \<longleftrightarrow>
     hasLogin i \<and> Boolean (hasEmailDeliveryFailure (account i)) \<and>
     \<not> shouldShowChooseSSOOrMagicCode (getRenderOptions C e i) \<and>
     \<not> shouldInitiateSAMLLogin (getRenderOptions C e i)"
  by (simp add: getRenderOptions_def Let_def)

lemma shouldShowUnlinkLoginForm_eq:
  "shouldShowUnlinkLoginForm (getRenderOptions C e i) \<longleftrightarrow>
     hasLogin i \<and> \<not> isPrimaryLogin i \<and> \<not> Boolean (validated (account i)) \<and>
     \<not> Boolean (hasEmailDeliveryFailure (account i))"
  by (simp add: getRenderOptions_def Let_def split: prod.split)

lemma shouldShowValidateCodeForm_eq:
  "shouldShowValidateCodeForm (getRenderOptions C e i) \<longleftrightarrow>
     \<not> isEmpty (account i) \<and> (hasLogin i \<or> hasValidateCode i) \<and>
     \<not> shouldShowUnlinkLoginForm (getRenderOptions C e i) \<and>
     \<not> Boolean (hasEmailDeliveryFailure (account i)) \<and>
     \<not> shouldShowChooseSSOOrMagicCode (getRenderOptions C e i) \<and>
     \<not> Boolean (isSAMLRequired (account i))"
  by (simp add: getRenderOptions_def Let_def)

lemmas flag_eqs =
  shouldShowLoginForm_eq shouldShowValidateCodeForm_eq shouldShowUnlinkLoginForm_eq
  shouldShowEmailDeliveryFailurePage_eq shouldShowChooseSSOOrMagicCode_eq
  shouldInitiateSAMLLogin_eq

text \<open>An object with a key that \<^verbatim>\<open>Boolean\<close> reads as true is not empty.\<close>

lemma not_isEmpty_isSAMLEnabled: "Boolean (isSAMLEnabled a) \<Longrightarrow> \<not> isEmpty a"
  by (auto simp: isEmpty_def)

subsection \<open>Which forms can be shown together\<close>

text \<open>
  The unlink form and the delivery-failure page never meet: the first asks for an
  account without delivery failure, the second for one with it.
\<close>

lemma unlink_excludes_delivery_failure:
  "\<not> (shouldShowUnlinkLoginForm (getRenderOptions C e i) \<and>
      shouldShowEmailDeliveryFailurePage (getRenderOptions C e i))"
  by (auto simp: shouldShowUnlinkLoginForm_eq shouldShowEmailDeliveryFailurePage_eq)

text \<open>
  Two other pairs do meet. Off the web and the beta, an account that requires SAML and
  has a delivery failure gets the login form and the delivery-failure page; on web, an
  unvalidated secondary login with SAML enabled gets the unlink form and the chooser.
\<close>

lemma login_with_delivery_failure_example:
  "renderedForms (getRenderOptions appConstants iosEnv samlWithDeliveryFailure) =
     [LoginForm, EmailDeliveryFailurePage]"
  by (simp add: renderedForms_def getRenderOptions_def Let_def isEmpty_def
      samlWithDeliveryFailure_def noAccount_def appConstants_def iosEnv_def)

lemma unlink_with_chooser_example:
  "renderedForms (getRenderOptions appConstants webEnv secondaryLoginSamlOptional) =
     [UnlinkLoginForm, ChooseSSOOrMagicCode]"
  by (simp add: renderedForms_def getRenderOptions_def Let_def isEmpty_def
      secondaryLoginSamlOptional_def noAccount_def appConstants_def webEnv_def)

text \<open>
  C1, as stated, fails. On web, for a secondary login of an unvalidated account that
  requires SAML, with no form loading, line 109 shows the login form although a login
  is present, and line 121 shows the unlink form as well.
\<close>

theorem C1_login_and_unlink_counterexample:
  "shouldShowLoginForm (getRenderOptions appConstants webEnv backFromPortal) \<and>
   shouldShowUnlinkLoginForm (getRenderOptions appConstants webEnv backFromPortal)"
  by (simp add: getRenderOptions_def Let_def isEmpty_def backFromPortal_def noAccount_def appConstants_def
      webEnv_def)

text \<open>
  C1, amended. Of the five forms LoginForm, ValidateCodeForm, UnlinkLoginForm,
  ChooseSSOOrMagicCode and EmailDeliveryFailurePage at most one is shown, except that
  one of these pairs may be shown together: UnlinkLoginForm with
  EmailDeliveryFailurePage, LoginForm with UnlinkLoginForm, LoginForm with
  EmailDeliveryFailurePage, UnlinkLoginForm with ChooseSSOOrMagicCode.
\<close>

theorem C1_at_most_one_form_or_listed_pair:
  "length (renderedForms (getRenderOptions C e i)) \<le> 1 \<or>
   renderedForms (getRenderOptions C e i) \<in>
     {[UnlinkLoginForm, EmailDeliveryFailurePage], [LoginForm, UnlinkLoginForm],
      [LoginForm, EmailDeliveryFailurePage], [UnlinkLoginForm, ChooseSSOOrMagicCode]}"
  unfolding renderedForms_def
  by (auto simp: flag_eqs)

theorem C1_at_most_one_form_or_listed_pair_witness:
  "renderedForms (getRenderOptions appConstants webEnv awaitingCode) = [ValidateCodeForm] \<and>
   renderedForms (getRenderOptions appConstants webEnv backFromPortal) =
     [LoginForm, UnlinkLoginForm]"
proof -
  have v: "shouldShowValidateCodeForm (getRenderOptions appConstants webEnv awaitingCode)"
    by (simp add: flag_eqs samlPermitted_def isEmpty_def awaitingCode_def noAccount_def
        appConstants_def webEnv_def)
  have l: "shouldShowLoginForm (getRenderOptions appConstants webEnv backFromPortal)"
    by (simp add: flag_eqs samlPermitted_def isEmpty_def backFromPortal_def noAccount_def
        appConstants_def webEnv_def)
  have u: "shouldShowUnlinkLoginForm (getRenderOptions appConstants webEnv backFromPortal)"
    by (simp add: flag_eqs samlPermitted_def isEmpty_def backFromPortal_def noAccount_def
        appConstants_def webEnv_def)
  show ?thesis
    using v l u
      C1_at_most_one_form_or_listed_pair [of appConstants webEnv awaitingCode]
      C1_at_most_one_form_or_listed_pair [of appConstants webEnv backFromPortal]
    by (auto simp: renderedForms_def split: if_splits)
qed

subsection \<open>The login form when SAML is required\<close>

text \<open>
  C2. When \<^verbatim>\<open>account.isSAMLRequired\<close> is true and \<open>shouldInitiateSAMLLogin\<close> is
  false, \<open>shouldShowLoginForm\<close> equals \<open>isClientTheLeader\<close>, whatever \<open>hasLogin\<close> and
  \<open>hasValidateCode\<close> are.
\<close>

theorem C2_saml_required_login_form_is_leader:
  assumes "Boolean (isSAMLRequired (account i))"
    and "\<not> shouldInitiateSAMLLogin (getRenderOptions C e i)"
  shows "shouldShowLoginForm (getRenderOptions C e i) = isClientTheLeader i"
  using assms by (simp add: shouldShowLoginForm_eq)

theorem C2_saml_required_login_form_is_leader_witness:
  "Boolean (isSAMLRequired (account backFromPortal)) \<and>
   hasLogin backFromPortal \<and>
   \<not> shouldInitiateSAMLLogin (getRenderOptions appConstants iosEnv backFromPortal) \<and>
   shouldShowLoginForm (getRenderOptions appConstants iosEnv backFromPortal) \<and>
   isClientTheLeader backFromPortal"
proof -
  have r: "Boolean (isSAMLRequired (account backFromPortal))"
    by (simp add: backFromPortal_def noAccount_def)
  have n: "\<not> shouldInitiateSAMLLogin (getRenderOptions appConstants iosEnv backFromPortal)"
    by (simp add: shouldInitiateSAMLLogin_eq samlPermitted_def backFromPortal_def noAccount_def
        appConstants_def iosEnv_def)
  show ?thesis
    using r n C2_saml_required_login_form_is_leader [OF r n]
    by (simp add: backFromPortal_def)
qed

subsection \<open>Email delivery failure\<close>

text \<open>
  C3, as stated, fails. On web, an account with delivery failure that requires SAML
  and is loading the login form starts the SAML login, and line 112 then withholds the
  delivery-failure page.
\<close>

theorem C3_delivery_failure_page_counterexample:
  "Boolean (hasEmailDeliveryFailure (account samlWithDeliveryFailure)) \<and>
   hasLogin samlWithDeliveryFailure \<and>
   \<not> Boolean (isSAMLEnabled (account samlWithDeliveryFailure)) \<and>
   \<not> shouldShowEmailDeliveryFailurePage
       (getRenderOptions appConstants webEnv samlWithDeliveryFailure)"
  by (simp add: getRenderOptions_def Let_def isEmpty_def samlWithDeliveryFailure_def noAccount_def appConstants_def
      webEnv_def)

text \<open>
  C3, amended. With \<^verbatim>\<open>account.hasEmailDeliveryFailure\<close> true, \<open>hasLogin\<close> true and
  \<^verbatim>\<open>account.isSAMLEnabled\<close> false, \<open>shouldShowValidateCodeForm\<close> is false, and
  \<open>shouldShowEmailDeliveryFailurePage\<close> is true exactly when \<open>shouldInitiateSAMLLogin\<close>
  is false.
\<close>

theorem C3_delivery_failure_page_unless_saml_login:
  assumes "Boolean (hasEmailDeliveryFailure (account i))"
    and "hasLogin i"
    and "\<not> Boolean (isSAMLEnabled (account i))"
  shows "shouldShowEmailDeliveryFailurePage (getRenderOptions C e i) =
           (\<not> shouldInitiateSAMLLogin (getRenderOptions C e i)) \<and>
         \<not> shouldShowValidateCodeForm (getRenderOptions C e i)"
  using assms
  by (simp add: shouldShowEmailDeliveryFailurePage_eq shouldShowValidateCodeForm_eq
      shouldShowChooseSSOOrMagicCode_eq)

theorem C3_delivery_failure_page_unless_saml_login_witness:
  "Boolean (hasEmailDeliveryFailure (account deliveryFailure)) \<and>
   hasLogin deliveryFailure \<and>
   \<not> Boolean (isSAMLEnabled (account deliveryFailure)) \<and>
   \<not> shouldInitiateSAMLLogin (getRenderOptions appConstants webEnv deliveryFailure) \<and>
   shouldShowEmailDeliveryFailurePage (getRenderOptions appConstants webEnv deliveryFailure) \<and>
   \<not> shouldShowValidateCodeForm (getRenderOptions appConstants webEnv deliveryFailure)"
proof -
  have f: "Boolean (hasEmailDeliveryFailure (account deliveryFailure))"
    by (simp add: deliveryFailure_def noAccount_def)
  have l: "hasLogin deliveryFailure"
    by (simp add: deliveryFailure_def noAccount_def)
  have s: "\<not> Boolean (isSAMLEnabled (account deliveryFailure))"
    by (simp add: deliveryFailure_def noAccount_def)
  have n: "\<not> shouldInitiateSAMLLogin (getRenderOptions appConstants webEnv deliveryFailure)"
    by (simp add: shouldInitiateSAMLLogin_eq deliveryFailure_def noAccount_def appConstants_def
        webEnv_def)
  show ?thesis
    using f l s n C3_delivery_failure_page_unless_saml_login [OF f l s, of appConstants webEnv]
    by simp
qed

subsection \<open>The validate-code form\<close>

text \<open>
  C4. \<open>shouldShowValidateCodeForm\<close> is true if and only if the account is not empty,
  and \<open>hasLogin\<close> or \<open>hasValidateCode\<close> holds, and the login is not an unvalidated
  secondary login (\<open>hasLogin\<close>, not \<open>isPrimaryLogin\<close>, \<^verbatim>\<open>account.validated\<close> not true,
  no delivery failure), and the account has no delivery failure, and
  \<open>shouldShowChooseSSOOrMagicCode\<close> is false, and \<^verbatim>\<open>account.isSAMLRequired\<close> is not
  true.
\<close>

theorem C4_validate_code_form_iff:
  "shouldShowValidateCodeForm (getRenderOptions C e i) =
     (\<not> isEmpty (account i) \<and>
      (hasLogin i \<or> hasValidateCode i) \<and>
      \<not> (hasLogin i \<and> \<not> isPrimaryLogin i \<and> \<not> Boolean (validated (account i)) \<and>
         \<not> Boolean (hasEmailDeliveryFailure (account i))) \<and>
      \<not> Boolean (hasEmailDeliveryFailure (account i)) \<and>
      \<not> shouldShowChooseSSOOrMagicCode (getRenderOptions C e i) \<and>
      \<not> Boolean (isSAMLRequired (account i)))"
  by (simp only: shouldShowValidateCodeForm_eq shouldShowUnlinkLoginForm_eq)

theorem C4_validate_code_form_iff_witness:
  "shouldShowValidateCodeForm (getRenderOptions appConstants iosEnv awaitingCode) \<and>
   \<not> shouldShowValidateCodeForm (getRenderOptions appConstants iosEnv secondaryLogin)"
proof -
  have c: "\<not> shouldShowChooseSSOOrMagicCode (getRenderOptions appConstants iosEnv awaitingCode)"
    by (simp add: shouldShowChooseSSOOrMagicCode_eq awaitingCode_def noAccount_def)
  show ?thesis
    using c
      C4_validate_code_form_iff [of appConstants iosEnv awaitingCode]
      C4_validate_code_form_iff [of appConstants iosEnv secondaryLogin]
    by (simp add: isEmpty_def awaitingCode_def secondaryLogin_def noAccount_def)
qed

subsection \<open>The SAML gate\<close>

text \<open>
  C5. When SAML is permitted (the feature flag, or the platform is web or desktop),
  \<open>shouldInitiateSAMLLogin\<close> is true if and only if the account is not empty,
  \<open>hasLogin\<close> holds, \<^verbatim>\<open>account.isSAMLRequired\<close> is true and \<^verbatim>\<open>account.loadingForm\<close>
  is the login form. When SAML is not permitted, \<open>shouldInitiateSAMLLogin\<close> and
  \<open>shouldShowChooseSSOOrMagicCode\<close> are both false.
\<close>

theorem C5_saml_gate:
  "(samlPermitted C e \<longrightarrow>
      shouldInitiateSAMLLogin (getRenderOptions C e i) =
        (\<not> isEmpty (account i) \<and> hasLogin i \<and> Boolean (isSAMLRequired (account i)) \<and>
         loadingForm (account i) = Some (FORMS_LOGIN_FORM C))) \<and>
   (\<not> samlPermitted C e \<longrightarrow>
      \<not> shouldInitiateSAMLLogin (getRenderOptions C e i) \<and>
      \<not> shouldShowChooseSSOOrMagicCode (getRenderOptions C e i))"
  by (simp add: shouldInitiateSAMLLogin_eq shouldShowChooseSSOOrMagicCode_eq)

theorem C5_saml_gate_witness:
  "samlPermitted appConstants webEnv \<and>
   shouldInitiateSAMLLogin (getRenderOptions appConstants webEnv samlWithDeliveryFailure) \<and>
   \<not> shouldInitiateSAMLLogin (getRenderOptions appConstants webEnv samlOptional) \<and>
   \<not> samlPermitted appConstants iosEnv \<and>
   \<not> shouldInitiateSAMLLogin (getRenderOptions appConstants iosEnv samlWithDeliveryFailure) \<and>
   \<not> shouldShowChooseSSOOrMagicCode (getRenderOptions appConstants iosEnv samlOptional)"
proof -
  have w: "samlPermitted appConstants webEnv"
    by (simp add: samlPermitted_def appConstants_def webEnv_def)
  have p: "\<not> samlPermitted appConstants iosEnv"
    by (simp add: samlPermitted_def appConstants_def iosEnv_def)
  show ?thesis
    using w p
      C5_saml_gate [of appConstants webEnv samlWithDeliveryFailure]
      C5_saml_gate [of appConstants webEnv samlOptional]
      C5_saml_gate [of appConstants iosEnv samlWithDeliveryFailure]
      C5_saml_gate [of appConstants iosEnv samlOptional]
    by (simp add: isEmpty_def samlWithDeliveryFailure_def samlOptional_def noAccount_def
        appConstants_def)
qed

subsection \<open>The choice between SSO and magic code\<close>

text \<open>
  C6. On the web platform, with \<^verbatim>\<open>account.isSAMLEnabled\<close> true,
  \<^verbatim>\<open>account.isSAMLRequired\<close> false, \<open>isUsingMagicCode\<close> false and \<open>hasLogin\<close> true,
  \<open>shouldShowChooseSSOOrMagicCode\<close> is true and \<open>shouldShowValidateCodeForm\<close> is false.
  An account with \<^verbatim>\<open>isSAMLEnabled\<close> true has a key, so it is not empty.
\<close>

theorem C6_choose_sso_or_magic_code_on_web:
  assumes "Boolean (isSAMLEnabled (account i))"
    and "\<not> Boolean (isSAMLRequired (account i))"
    and "\<not> isUsingMagicCode i"
    and "hasLogin i"
    and "getPlatform e = PLATFORM_WEB C"
  shows "shouldShowChooseSSOOrMagicCode (getRenderOptions C e i) \<and>
         \<not> shouldShowValidateCodeForm (getRenderOptions C e i)"
proof -
  have "\<not> isEmpty (account i)"
    using assms(1) by (rule not_isEmpty_isSAMLEnabled)
  moreover have "samlPermitted C e"
    using assms(5) by (simp add: samlPermitted_def)
  ultimately have "shouldShowChooseSSOOrMagicCode (getRenderOptions C e i)"
    using assms(1-4) by (simp add: shouldShowChooseSSOOrMagicCode_eq)
  then show ?thesis
    by (simp add: shouldShowValidateCodeForm_eq)
qed

theorem C6_choose_sso_or_magic_code_on_web_witness:
  "Boolean (isSAMLEnabled (account samlOptional)) \<and>
   \<not> isEmpty (account samlOptional) \<and>
   hasLogin samlOptional \<and>
   getPlatform webEnv = PLATFORM_WEB appConstants \<and>
   shouldShowChooseSSOOrMagicCode (getRenderOptions appConstants webEnv samlOptional) \<and>
   \<not> shouldShowValidateCodeForm (getRenderOptions appConstants webEnv samlOptional)"
proof -
  have a: "Boolean (isSAMLEnabled (account samlOptional))"
    by (simp add: samlOptional_def noAccount_def)
  have b: "\<not> Boolean (isSAMLRequired (account samlOptional))"
    by (simp add: samlOptional_def noAccount_def)
  have c: "\<not> isUsingMagicCode samlOptional"
    by (simp add: samlOptional_def)
  have d: "hasLogin samlOptional"
    by (simp add: samlOptional_def)
  have w: "getPlatform webEnv = PLATFORM_WEB appConstants"
    by (simp add: webEnv_def appConstants_def)
  have n: "\<not> isEmpty (account samlOptional)"
    by (simp add: isEmpty_def samlOptional_def noAccount_def)
  show ?thesis
    using a d w n C6_choose_sso_or_magic_code_on_web [OF a b c d w]
    by simp
qed

subsection \<open>The first visit\<close>

text \<open>
  C7. With \<open>hasLogin\<close> false, \<open>hasValidateCode\<close> false and \<open>isClientTheLeader\<close> true,
  \<open>shouldShowLoginForm\<close> is true and \<open>shouldShowValidateCodeForm\<close>,
  \<open>shouldShowUnlinkLoginForm\<close>, \<open>shouldShowChooseSSOOrMagicCode\<close>,
  \<open>shouldShowEmailDeliveryFailurePage\<close> and \<open>shouldInitiateSAMLLogin\<close> are false, for
  every account.
\<close>

theorem C7_only_login_form_without_credentials:
  assumes "\<not> hasLogin i"
    and "\<not> hasValidateCode i"
    and "isClientTheLeader i"
  shows "shouldShowLoginForm (getRenderOptions C e i) \<and>
         \<not> shouldShowValidateCodeForm (getRenderOptions C e i) \<and>
         \<not> shouldShowUnlinkLoginForm (getRenderOptions C e i) \<and>
         \<not> shouldShowChooseSSOOrMagicCode (getRenderOptions C e i) \<and>
         \<not> shouldShowEmailDeliveryFailurePage (getRenderOptions C e i) \<and>
         \<not> shouldInitiateSAMLLogin (getRenderOptions C e i)"
  using assms by (simp add: flag_eqs)

theorem C7_only_login_form_without_credentials_witness:
  "\<not> hasLogin firstVisit \<and> \<not> hasValidateCode firstVisit \<and> isClientTheLeader firstVisit \<and>
   renderedForms (getRenderOptions appConstants webEnv firstVisit) = [LoginForm] \<and>
   \<not> shouldInitiateSAMLLogin (getRenderOptions appConstants webEnv firstVisit)"
proof -
  have a: "\<not> hasLogin firstVisit"
    by (simp add: firstVisit_def)
  have b: "\<not> hasValidateCode firstVisit"
    by (simp add: firstVisit_def)
  have c: "isClientTheLeader firstVisit"
    by (simp add: firstVisit_def)
  show ?thesis
    using a b c C7_only_login_form_without_credentials [OF a b c, of appConstants webEnv]
    by (simp add: renderedForms_def)
qed

subsection \<open>The unlink form\<close>

text \<open>
  C8. With \<open>isPrimaryLogin\<close> false, \<^verbatim>\<open>account.validated\<close> false, \<open>hasLogin\<close> true and
  \<^verbatim>\<open>account.hasEmailDeliveryFailure\<close> false, \<open>shouldShowUnlinkLoginForm\<close> is true.
  False covers the absent key, which \<^verbatim>\<open>Boolean\<close> reads as false.
\<close>

theorem C8_unlink_form_for_unvalidated_secondary_login:
  assumes "\<not> isPrimaryLogin i"
    and "\<not> Boolean (validated (account i))"
    and "hasLogin i"
    and "\<not> Boolean (hasEmailDeliveryFailure (account i))"
  shows "shouldShowUnlinkLoginForm (getRenderOptions C e i)"
  using assms by (simp add: shouldShowUnlinkLoginForm_eq)

theorem C8_unlink_form_for_unvalidated_secondary_login_witness:
  "\<not> isPrimaryLogin secondaryLogin \<and> validated (account secondaryLogin) = Some False \<and>
   hasLogin secondaryLogin \<and> hasEmailDeliveryFailure (account secondaryLogin) = None \<and>
   shouldShowUnlinkLoginForm (getRenderOptions appConstants webEnv secondaryLogin)"
proof -
  have a: "\<not> isPrimaryLogin secondaryLogin"
    by (simp add: secondaryLogin_def)
  have b: "\<not> Boolean (validated (account secondaryLogin))"
    by (simp add: secondaryLogin_def noAccount_def)
  have c: "hasLogin secondaryLogin"
    by (simp add: secondaryLogin_def)
  have d: "\<not> Boolean (hasEmailDeliveryFailure (account secondaryLogin))"
    by (simp add: secondaryLogin_def noAccount_def)
  show ?thesis
    using a c
      C8_unlink_form_for_unvalidated_secondary_login [OF a b c d, of appConstants webEnv]
    by (simp add: secondaryLogin_def noAccount_def)
qed

subsection \<open>The role of the environment\<close>

text \<open>
  The environment enters the result through the test of line 98 alone: two
  environments that agree on it give the same result.
\<close>

lemma getRenderOptions_cong_samlPermitted:
  assumes "samlPermitted C e = samlPermitted C e'"
  shows "getRenderOptions C e i = getRenderOptions C e' i"
  using assms by (simp add: getRenderOptions_def samlPermitted_def Let_def)

subsection \<open>The empty account\<close>

text \<open>
  C10. When the account object is empty, \<open>shouldShowValidateCodeForm\<close>,
  \<open>shouldShowChooseSSOOrMagicCode\<close> and \<open>shouldInitiateSAMLLogin\<close> are false, whatever
  the other inputs, the platform and the feature flag are.
\<close>

theorem C10_empty_account_flags:
  assumes "isEmpty (account i)"
  shows "\<not> shouldShowValidateCodeForm (getRenderOptions C e i) \<and>
         \<not> shouldShowChooseSSOOrMagicCode (getRenderOptions C e i) \<and>
         \<not> shouldInitiateSAMLLogin (getRenderOptions C e i)"
  using assms
  by (simp add: shouldShowValidateCodeForm_eq shouldShowChooseSSOOrMagicCode_eq
      shouldInitiateSAMLLogin_eq)

theorem C10_empty_account_flags_witness:
  "isEmpty (account loginWithoutAccount) \<and>
   hasLogin loginWithoutAccount \<and> hasValidateCode loginWithoutAccount \<and>
   \<not> shouldShowValidateCodeForm (getRenderOptions appConstants webEnv loginWithoutAccount) \<and>
   \<not> shouldShowChooseSSOOrMagicCode (getRenderOptions appConstants webEnv loginWithoutAccount) \<and>
   \<not> shouldInitiateSAMLLogin (getRenderOptions appConstants webEnv loginWithoutAccount)"
proof -
  have a: "isEmpty (account loginWithoutAccount)"
    by (simp add: isEmpty_def loginWithoutAccount_def noAccount_def)
  show ?thesis
    using a C10_empty_account_flags [OF a, of appConstants webEnv]
    by (simp add: loginWithoutAccount_def)
qed

end
